theory Spec2Isabelle
  imports Main
begin

section \<open>Python exceptions\<close>

text \<open>
  The exceptions the training script can see. Python's hierarchy has \<open>BaseException\<close> at
  the root; \<open>Exception\<close> is one of its subclasses, and \<open>KeyboardInterrupt\<close>,
  \<open>SystemExit\<close> and \<open>GeneratorExit\<close> are siblings of \<open>Exception\<close>, not
  subclasses of it. \<open>ValueError\<close> carries its message; \<open>OtherException\<close> stands for
  an instance of any other subclass of \<open>Exception\<close>, named by its class.
\<close>

datatype exn =
    ValueError string
  | OtherException string
  | KeyboardInterrupt
  | SystemExit int
  | GeneratorExit

text \<open>\<open>isinstance(e, Exception)\<close>: what a clause \<open>except Exception\<close> catches.\<close>

fun is_Exception :: "exn \<Rightarrow> bool" where
  "is_Exception (ValueError _) = True"
| "is_Exception (OtherException _) = True"
| "is_Exception KeyboardInterrupt = False"
| "is_Exception (SystemExit _) = False"
| "is_Exception GeneratorExit = False"

section \<open>The command line of \<open>utime/bin/train.py\<close>\<close>

text \<open>
  The \<open>Namespace\<close> that \<open>get_argparser().parse_args\<close> returns, one field per
  \<open>add_argument\<close>. A \<open>store_true\<close> flag is a \<open>bool\<close>; an argument whose default is
  \<open>None\<close> is an option. The two sample counts are \<open>int(s)\<close> of the text given, or the
  defaults \<open>5e5\<close> and \<open>5e4\<close>: Python floats whose values are the integers 500000 and
  50000, and Python orders an int and a float by value, so both fields are integers here.
\<close>

record args =
  num_GPUs :: int
  force_GPU :: string
  continue_training :: bool
  initialize_from :: "string option"
  log_file_prefix :: string
  overwrite :: bool
  just_one :: bool
  no_val :: bool
  max_train_samples_per_epoch :: int
  val_samples_per_epoch :: int
  n_epochs :: "int option"
  channels :: "string list option"
  final_weights_file_name :: string
  train_on_val :: bool

text \<open>The defaults of \<open>get_argparser\<close>: what parsing an empty command line gives.\<close>

definition default_args :: args where
  "default_args =
     \<lparr> num_GPUs = 1, force_GPU = '''', continue_training = False,
       initialize_from = None, log_file_prefix = '''', overwrite = False,
       just_one = False, no_val = False,
       max_train_samples_per_epoch = 500000, val_samples_per_epoch = 50000,
       n_epochs = None, channels = None,
       final_weights_file_name = ''model_weights.h5'', train_on_val = False \<rparr>"

text \<open>
  Truth value of an optional string, as \<open>and\<close> tests it: \<open>None\<close> and the empty string
  are false.
\<close>

fun truthy :: "string option \<Rightarrow> bool" where
  "truthy None = False"
| "truthy (Some s) = (s \<noteq> [])"

text \<open>
  \<open>assert_args\<close> has three checks, in this order, each raising \<open>ValueError\<close>. It
  assigns nothing; a normal return hands the namespace back as it was.
\<close>

definition assert_args :: "args \<Rightarrow> exn + args" where
  "assert_args a =
     (if continue_training a \<and> truthy (initialize_from a) then
        Inl (ValueError ''Should not specify both --continue_training and --initialize_from'')
      else if max_train_samples_per_epoch a < 1 \<or> val_samples_per_epoch a < 1 then
        Inl (ValueError ''max_train_samples_per_epoch and val_samples_per_epoch must be >= 1.'')
      else if (case n_epochs a of None \<Rightarrow> False | Some n \<Rightarrow> n < 1) then
        Inl (ValueError ''n_epochs must be larger than >= 1.'')
      else Inr a)"

section \<open>The GPU monitor and \<open>entry_func\<close>\<close>

text \<open>
  \<open>GPUMonitor\<close> belongs to the mpunet package, outside this repository. Its state is kept
  as what the script can observe of it: whether the monitor process runs, and how many
  times \<open>stop()\<close> was called on it. The constructor starts the process; \<open>stop()\<close>
  signals it to end and is taken to return normally.
\<close>

record gpu_mon =
  running :: bool
  stop_calls :: nat

definition GPUMonitor :: gpu_mon where
  "GPUMonitor = \<lparr> running = True, stop_calls = 0 \<rparr>"

definition stop :: "gpu_mon \<Rightarrow> gpu_mon" where
  "stop m = m \<lparr> running := False, stop_calls := stop_calls m + 1 \<rparr>"

text \<open>
  The outcome of a call that returns nothing: \<open>None\<close> for a normal return, \<open>Some e\<close>
  when \<open>e\<close> was raised; with it, the monitor as the call left it.

  \<open>run\<close> checks the arguments first (line 107). Everything after that (lines 108 to
  193: the project folder, the logger, the hyperparameters, the datasets, the model, the
  fit and the saved weights) is the work of packages outside the repository; it is the
  parameter \<open>rest\<close>, which may return or raise anything and may use the monitor.
\<close>

definition run :: "(args \<Rightarrow> gpu_mon \<Rightarrow> exn option \<times> gpu_mon) \<Rightarrow> args \<Rightarrow> gpu_mon
    \<Rightarrow> exn option \<times> gpu_mon" where
  "run rest a m =
     (case assert_args a of
        Inl e \<Rightarrow> (Some e, m)
      | Inr a' \<Rightarrow> rest a' m)"

text \<open>
  \<open>entry_func\<close>: \<open>parsed\<close> is the outcome of \<open>parser.parse_args(args)\<close>, which leaves
  with \<open>SystemExit\<close> on a bad command line, before any monitor exists. Then the monitor
  is made and \<open>run\<close> is called inside \<open>try\<close>; the handler is \<open>except Exception as e\<close>,
  which stops the monitor and raises \<open>e\<close> again. There is no \<open>else\<close> and no
  \<open>finally\<close> branch.
\<close>

definition entry_func :: "exn + args \<Rightarrow> (args \<Rightarrow> gpu_mon \<Rightarrow> exn option \<times> gpu_mon)
    \<Rightarrow> exn option \<times> gpu_mon option" where
  "entry_func parsed rest =
     (case parsed of
        Inl e \<Rightarrow> (Some e, None)
      | Inr a \<Rightarrow>
          (case run rest a GPUMonitor of
             (None, m) \<Rightarrow> (None, Some m)
           | (Some e, m) \<Rightarrow>
               if is_Exception e then (Some e, Some (stop m))
               else (Some e, Some m)))"

text \<open>
  Three ways the rest of \<open>run\<close> can go, none touching the monitor: the training
  completes; the user interrupts it with Ctrl-C; a collaborator raises a
  \<open>RuntimeError\<close>.
\<close>

definition trained :: "args \<Rightarrow> gpu_mon \<Rightarrow> exn option \<times> gpu_mon" where
  "trained a m = (None, m)"

definition interrupted :: "args \<Rightarrow> gpu_mon \<Rightarrow> exn option \<times> gpu_mon" where
  "interrupted a m = (Some KeyboardInterrupt, m)"

definition crashed :: "args \<Rightarrow> gpu_mon \<Rightarrow> exn option \<times> gpu_mon" where
  "crashed a m = (Some (OtherException ''RuntimeError''), m)"

section \<open>Tensor shapes of the encoder\<close>

text \<open>
  The model file \<open>utime/models/utime.py\<close> is not among the sources; only its tests are
  (\<open>tests/models/test_utime.py\<close>). The tests assert sizes, never values, so the blocks
  are kept at the level of the shape of a 4-axis tensor: (batch, channel, spatial, time).
\<close>

type_synonym shape = "nat \<times> nat \<times> nat \<times> nat"

datatype model_error = ConfigurationError | ShapeMismatchError

text \<open>
  Modelled from the spec: \<open>SingleConvBlock\<close> of \<open>utime/models/utime.py\<close> is missing.
  Section 4.1: a channel width that is not positive is a configuration error; the forward
  pass takes (B, C_in, 1, T) to (B, C_out, 1, T).
\<close>

record conv_block =
  conv_in :: nat
  conv_out :: nat

definition SingleConvBlock :: "nat \<Rightarrow> nat \<Rightarrow> model_error + conv_block" where
  "SingleConvBlock c_in c_out =
     (if c_in = 0 \<or> c_out = 0 then Inl ConfigurationError
      else Inr \<lparr> conv_in = c_in, conv_out = c_out \<rparr>)"

fun SingleConvBlock_forward :: "conv_block \<Rightarrow> shape \<Rightarrow> model_error + shape" where
  "SingleConvBlock_forward blk (b, c, s, t) =
     (if c = conv_in blk then Inr (b, conv_out blk, s, t) else Inl ShapeMismatchError)"

text \<open>
  Modelled from the spec: \<open>DoubleConvBlock\<close> of \<open>utime/models/utime.py\<close> is missing.
  Section 4.2: two chained SingleConvBlocks, the first from C_in to C_out, the second
  keeping C_out.
\<close>

record double_conv_block =
  conv1 :: conv_block
  conv2 :: conv_block

definition DoubleConvBlock :: "nat \<Rightarrow> nat \<Rightarrow> model_error + double_conv_block" where
  "DoubleConvBlock c_in c_out =
     (case SingleConvBlock c_in c_out of
        Inl e \<Rightarrow> Inl e
      | Inr b1 \<Rightarrow>
          (case SingleConvBlock c_out c_out of
             Inl e \<Rightarrow> Inl e
           | Inr b2 \<Rightarrow> Inr \<lparr> conv1 = b1, conv2 = b2 \<rparr>))"

definition DoubleConvBlock_forward :: "double_conv_block \<Rightarrow> shape \<Rightarrow> model_error + shape" where
  "DoubleConvBlock_forward blk x =
     (case SingleConvBlock_forward (conv1 blk) x of
        Inl e \<Rightarrow> Inl e
      | Inr y \<Rightarrow> SingleConvBlock_forward (conv2 blk) y)"

text \<open>
  Modelled from the spec: \<open>DownBlock\<close> of \<open>utime/models/utime.py\<close> is missing.
  Section 4.3: the DoubleConvBlock gives the residual; pooling without overlap by
  \<open>pool_size\<close> gives the pooled map, whose time length is the floor of T / pool_size; the
  pair (pooled, residual) is returned. Section 3: a pooling factor is a positive integer.
\<close>

record down_block =
  double_conv :: double_conv_block
  pool_size :: nat

definition DownBlock :: "nat \<Rightarrow> nat \<Rightarrow> nat \<Rightarrow> model_error + down_block" where
  "DownBlock c_in c_out pool =
     (if pool = 0 then Inl ConfigurationError
      else
        (case DoubleConvBlock c_in c_out of
           Inl e \<Rightarrow> Inl e
         | Inr dc \<Rightarrow> Inr \<lparr> double_conv = dc, pool_size = pool \<rparr>))"

definition DownBlock_forward :: "down_block \<Rightarrow> shape \<Rightarrow> model_error + shape \<times> shape" where
  "DownBlock_forward blk x =
     (case DoubleConvBlock_forward (double_conv blk) x of
        Inl e \<Rightarrow> Inl e
      | Inr (b, c, s, t) \<Rightarrow> Inr ((b, c, s, t div pool_size blk), (b, c, s, t)))"

text \<open>
  Modelled from the spec: \<open>UTimeEncoder\<close> of \<open>utime/models/utime.py\<close> is missing.
  Section 4.4: \<open>depth\<close> DownBlocks, one per pooling factor, each twice as wide as the
  stage before it, the first twice as wide as the input; a pool schedule whose length is
  not \<open>depth\<close> is a configuration error (section 7). The forward pass returns the last
  pooled map and the residuals, stage 0 first.

  The filter schedule follows section 8 and \<open>test_UTimeEncoder__01\<close>, which give
  \<open>[IN_CH*2, IN_CH*4, IN_CH*4]\<close> for depth 2: the width of each DownBlock in turn, then
  the width of the map the encoder returns.
\<close>

record encoder =
  blocks :: "down_block list"
  filters :: "nat list"

fun UTimeEncoder_stages :: "nat \<Rightarrow> nat list \<Rightarrow> model_error + down_block list \<times> nat list" where
  "UTimeEncoder_stages w [] = Inr ([], [w])"
| "UTimeEncoder_stages w (p # ps) =
     (case DownBlock w (2 * w) p of
        Inl e \<Rightarrow> Inl e
      | Inr blk \<Rightarrow>
          (case UTimeEncoder_stages (2 * w) ps of
             Inl e \<Rightarrow> Inl e
           | Inr (bs, fs) \<Rightarrow> Inr (blk # bs, 2 * w # fs)))"

definition UTimeEncoder :: "nat \<Rightarrow> nat \<Rightarrow> nat list \<Rightarrow> model_error + encoder" where
  "UTimeEncoder in_ch depth pools =
     (if length pools \<noteq> depth then Inl ConfigurationError
      else
        (case UTimeEncoder_stages in_ch pools of
           Inl e \<Rightarrow> Inl e
         | Inr (bs, fs) \<Rightarrow> Inr \<lparr> blocks = bs, filters = fs \<rparr>))"

fun encode :: "down_block list \<Rightarrow> shape \<Rightarrow> model_error + shape \<times> shape list" where
  "encode [] x = Inr (x, [])"
| "encode (blk # bs) x =
     (case DownBlock_forward blk x of
        Inl e \<Rightarrow> Inl e
      | Inr (pooled, residual) \<Rightarrow>
          (case encode bs pooled of
             Inl e \<Rightarrow> Inl e
           | Inr (y, res) \<Rightarrow> Inr (y, residual # res)))"

definition UTimeEncoder_forward :: "encoder \<Rightarrow> shape \<Rightarrow> model_error + shape \<times> shape list" where
  "UTimeEncoder_forward enc x = encode (blocks enc) x"

section \<open>Checks on the arguments\<close>

lemma assert_args_cases:
  "assert_args a = Inr a \<or> (\<exists>msg. assert_args a = Inl (ValueError msg))"
  by (simp add: assert_args_def)

lemma default_args_ok: "assert_args default_args = Inr default_args"
  by (simp add: assert_args_def default_args_def)

text \<open>
  Claim C9. \<open>assert_args\<close> raises \<open>ValueError\<close> exactly when \<open>continue_training\<close> and
  \<open>initialize_from\<close> are both truthy, or \<open>max_train_samples_per_epoch < 1\<close>, or
  \<open>val_samples_per_epoch < 1\<close>, or \<open>n_epochs\<close> is not \<open>None\<close> and below 1. In every
  other case it returns normally, and the arguments are as they were.
\<close>

theorem assert_args_raises_iff:
  "((\<exists>msg. assert_args a = Inl (ValueError msg)) \<longleftrightarrow>
      (continue_training a \<and> truthy (initialize_from a))
      \<or> max_train_samples_per_epoch a < 1
      \<or> val_samples_per_epoch a < 1
      \<or> (\<exists>n. n_epochs a = Some n \<and> n < 1))
   \<and> ((\<exists>e. assert_args a = Inl e) \<longleftrightarrow> (\<exists>msg. assert_args a = Inl (ValueError msg)))
   \<and> ((\<forall>e. assert_args a \<noteq> Inl e) \<longrightarrow> assert_args a = Inr a)"
proof -
  have raise_iff: "(\<exists>msg. assert_args a = Inl (ValueError msg)) \<longleftrightarrow>
      (continue_training a \<and> truthy (initialize_from a))
      \<or> max_train_samples_per_epoch a < 1
      \<or> val_samples_per_epoch a < 1
      \<or> (\<exists>n. n_epochs a = Some n \<and> n < 1)"
    by (cases "n_epochs a") (auto simp: assert_args_def)
  have only_value_error:
    "(\<exists>e. assert_args a = Inl e) \<longleftrightarrow> (\<exists>msg. assert_args a = Inl (ValueError msg))"
    using assert_args_cases [of a] by auto
  have unchanged: "(\<forall>e. assert_args a \<noteq> Inl e) \<longrightarrow> assert_args a = Inr a"
    using assert_args_cases [of a] by auto
  from raise_iff only_value_error unchanged show ?thesis by blast
qed

theorem assert_args_raises_iff_witness:
  "assert_args default_args = Inr default_args
   \<and> (\<exists>msg. assert_args (default_args \<lparr> n_epochs := Some 0 \<rparr>) = Inl (ValueError msg))"
proof -
  have "\<forall>e. assert_args default_args \<noteq> Inl e"
    by (simp add: default_args_ok)
  with assert_args_raises_iff [of default_args]
  have ok: "assert_args default_args = Inr default_args" by blast
  have "\<exists>n. n_epochs (default_args \<lparr> n_epochs := Some 0 \<rparr>) = Some n \<and> n < 1"
    by simp
  with assert_args_raises_iff [of "default_args \<lparr> n_epochs := Some 0 \<rparr>"]
  have "\<exists>msg. assert_args (default_args \<lparr> n_epochs := Some 0 \<rparr>) = Inl (ValueError msg)"
    by blast
  with ok show ?thesis by blast
qed

section \<open>Stopping the monitor\<close>

lemma stop_counts: "stop_calls (stop m) = stop_calls m + 1 \<and> \<not> running (stop m)"
  by (simp add: stop_def)

lemma stop_changes: "stop m \<noteq> m"
proof
  assume "stop m = m"
  then have "stop_calls (stop m) = stop_calls m" by simp
  then show False by (simp add: stop_def)
qed

lemma run_invalid_args:
  "assert_args a = Inl e \<Longrightarrow> run rest a m = (Some e, m)"
  by (simp add: run_def)

lemma run_valid_args:
  "assert_args a = Inr a \<Longrightarrow> run rest a m = rest a m"
  by (simp add: run_def)

text \<open>
  Claim C10, as the claim states it, fails when \<open>run\<close> raises \<open>KeyboardInterrupt\<close>: the
  clause \<open>except Exception\<close> does not catch it, so it leaves \<open>entry_func\<close> with no call
  of \<open>stop()\<close>, and the monitor still runs.
\<close>

theorem entry_func_interrupt_counterexample:
  "run interrupted default_args GPUMonitor = (Some KeyboardInterrupt, GPUMonitor)
   \<and> entry_func (Inr default_args) interrupted = (Some KeyboardInterrupt, Some GPUMonitor)
   \<and> stop_calls GPUMonitor = 0 \<and> running GPUMonitor
   \<and> entry_func (Inr default_args) interrupted \<noteq> (Some KeyboardInterrupt, Some (stop GPUMonitor))"
proof -
  have r: "run interrupted default_args GPUMonitor = (Some KeyboardInterrupt, GPUMonitor)"
    by (simp add: run_valid_args default_args_ok interrupted_def)
  then have e: "entry_func (Inr default_args) interrupted = (Some KeyboardInterrupt, Some GPUMonitor)"
    by (simp add: entry_func_def)
  have m: "stop_calls GPUMonitor = 0 \<and> running GPUMonitor"
    by (simp add: GPUMonitor_def)
  from r e m stop_changes [of GPUMonitor] show ?thesis by simp
qed

text \<open>
  Claim C10, amended. When \<open>run\<close> raises an exception that is an instance of
  \<open>Exception\<close>, \<open>entry_func\<close> calls \<open>gpu_mon.stop()\<close> once, on the monitor as \<open>run\<close>
  left it, and raises the same exception again. An exception that is not an instance of
  \<open>Exception\<close> leaves \<open>entry_func\<close> unchanged and without a call of \<open>stop()\<close>. When
  \<open>run\<close> returns, \<open>entry_func\<close> returns without a call of \<open>stop()\<close>: the monitor is
  as \<open>run\<close> left it.
\<close>

theorem entry_func_stop:
  "(run rest a GPUMonitor = (Some e, m) \<and> is_Exception e \<longrightarrow>
      entry_func (Inr a) rest = (Some e, Some (stop m))
      \<and> stop_calls (stop m) = stop_calls m + 1 \<and> \<not> running (stop m))
   \<and> (run rest a GPUMonitor = (Some e, m) \<and> \<not> is_Exception e \<longrightarrow>
      entry_func (Inr a) rest = (Some e, Some m))
   \<and> (run rest a GPUMonitor = (None, m) \<longrightarrow>
      entry_func (Inr a) rest = (None, Some m))"
  by (simp add: entry_func_def stop_counts)

theorem entry_func_stop_witness:
  "entry_func (Inr (default_args \<lparr> n_epochs := Some 0 \<rparr>)) trained =
     (Some (ValueError ''n_epochs must be larger than >= 1.''),
      Some \<lparr> running = False, stop_calls = 1 \<rparr>)
   \<and> entry_func (Inr default_args) crashed =
     (Some (OtherException ''RuntimeError''), Some \<lparr> running = False, stop_calls = 1 \<rparr>)
   \<and> entry_func (Inr default_args) (\<lambda>a m. (Some (SystemExit 1), m)) =
     (Some (SystemExit 1), Some \<lparr> running = True, stop_calls = 0 \<rparr>)
   \<and> entry_func (Inr default_args) trained =
     (None, Some \<lparr> running = True, stop_calls = 0 \<rparr>)"
proof -
  let ?bad = "default_args \<lparr> n_epochs := Some 0 \<rparr>"
  let ?e = "ValueError ''n_epochs must be larger than >= 1.''"
  have "assert_args ?bad = Inl ?e"
    by (simp add: assert_args_def default_args_def)
  then have "run trained ?bad GPUMonitor = (Some ?e, GPUMonitor) \<and> is_Exception ?e"
    by (simp add: run_invalid_args)
  with entry_func_stop [of trained ?bad ?e GPUMonitor]
  have c1: "entry_func (Inr ?bad) trained = (Some ?e, Some (stop GPUMonitor))"
    by blast
  have "run crashed default_args GPUMonitor = (Some (OtherException ''RuntimeError''), GPUMonitor)
      \<and> is_Exception (OtherException ''RuntimeError'')"
    by (simp add: run_valid_args default_args_ok crashed_def)
  with entry_func_stop [of crashed default_args "OtherException ''RuntimeError''" GPUMonitor]
  have c2: "entry_func (Inr default_args) crashed =
      (Some (OtherException ''RuntimeError''), Some (stop GPUMonitor))"
    by blast
  have "run (\<lambda>a m. (Some (SystemExit 1), m)) default_args GPUMonitor = (Some (SystemExit 1), GPUMonitor)
      \<and> \<not> is_Exception (SystemExit 1)"
    by (simp add: run_valid_args default_args_ok)
  with entry_func_stop [of "\<lambda>a m. (Some (SystemExit 1), m)" default_args "SystemExit 1" GPUMonitor]
  have c3: "entry_func (Inr default_args) (\<lambda>a m. (Some (SystemExit 1), m)) =
      (Some (SystemExit 1), Some GPUMonitor)"
    by blast
  have "run trained default_args GPUMonitor = (None, GPUMonitor)"
    by (simp add: run_valid_args default_args_ok trained_def)
  with entry_func_stop [of trained default_args _ GPUMonitor]
  have c4: "entry_func (Inr default_args) trained = (None, Some GPUMonitor)"
    by blast
  from c1 c2 c3 c4 show ?thesis
    by (simp add: stop_def GPUMonitor_def)
qed

section \<open>The encoder of the test\<close>

lemma DownBlock_built:
  "0 < c_in \<Longrightarrow> 0 < c_out \<Longrightarrow> 0 < pool \<Longrightarrow>
   DownBlock c_in c_out pool =
     Inr \<lparr> double_conv = \<lparr> conv1 = \<lparr> conv_in = c_in, conv_out = c_out \<rparr>,
                            conv2 = \<lparr> conv_in = c_out, conv_out = c_out \<rparr> \<rparr>,
           pool_size = pool \<rparr>"
  by (simp add: DownBlock_def DoubleConvBlock_def SingleConvBlock_def)

lemma DownBlock_forward_shape:
  "DownBlock c_in c_out pool = Inr blk \<Longrightarrow>
   DownBlock_forward blk (b, c_in, s, t) = Inr ((b, c_out, s, t div pool), (b, c_out, s, t))"
  by (auto simp: DownBlock_def DoubleConvBlock_def SingleConvBlock_def
      DownBlock_forward_def DoubleConvBlock_forward_def split: if_splits)

text \<open>
  Claim C1. The encoder built with input width 32, depth 2 and pools [4, 5], applied to
  a tensor of shape (10, 32, 1, 100), returns a map of channel width 128 and time length
  5 and a skip list of length 2; its filter schedule is [64, 128, 128], of length
  depth + 1 = 3.
\<close>

theorem UTimeEncoder_depth2_shapes:
  "\<exists>enc y res.
     UTimeEncoder 32 2 [4, 5] = Inr enc
     \<and> UTimeEncoder_forward enc (10, 32, 1, 100) = Inr (y, res)
     \<and> y = (10, 128, 1, 5)
     \<and> length res = 2
     \<and> filters enc = [64, 128, 128]
     \<and> length (filters enc) = 2 + 1"
proof -
  obtain b1 where b1: "DownBlock 32 64 4 = Inr b1"
    by (simp add: DownBlock_built)
  obtain b2 where b2: "DownBlock 64 128 5 = Inr b2"
    by (simp add: DownBlock_built)
  have stages: "UTimeEncoder_stages 32 [4, 5] = Inr ([b1, b2], [64, 128, 128])"
    using b1 b2 by simp
  then have enc: "UTimeEncoder 32 2 [4, 5] = Inr \<lparr> blocks = [b1, b2], filters = [64, 128, 128] \<rparr>"
    by (simp add: UTimeEncoder_def)
  have f1: "DownBlock_forward b1 (10, 32, 1, 100) = Inr ((10, 64, 1, 25), (10, 64, 1, 100))"
    using DownBlock_forward_shape [OF b1, of 10 1 100] by simp
  have f2: "DownBlock_forward b2 (10, 64, 1, 25) = Inr ((10, 128, 1, 5), (10, 128, 1, 25))"
    using DownBlock_forward_shape [OF b2, of 10 1 25] by simp
  have fwd: "encode [b1, b2] (10, 32, 1, 100) =
      Inr ((10, 128, 1, 5), [(10, 64, 1, 100), (10, 128, 1, 25)])"
    using f1 f2 by simp
  from enc fwd show ?thesis
    by (simp add: UTimeEncoder_forward_def)
qed

end
